theory Spec2Isabelle
  imports Complex_Main
begin

section \<open>Samples: numpy float64 values\<close>

text \<open>
  A sample of a recording is a float64. The model keeps the three kinds of value the
  code distinguishes: a finite number (an exact real: rounding and overflow are not
  modelled), the two infinities, and NaN, the missing-value marker that
  \<^verbatim>\<open>interpolate\<close> writes and tests for. Signed zeros are identified: a zero
  divisor is taken as +0.0.
\<close>

datatype sample = Fin real | PInf | NInf | NaN

fun isnan :: "sample \<Rightarrow> bool" where
  "isnan NaN = True"
| "isnan _ = False"

fun fneg :: "sample \<Rightarrow> sample" where
  "fneg (Fin a) = Fin (- a)"
| "fneg PInf = NInf"
| "fneg NInf = PInf"
| "fneg NaN = NaN"

fun fabs :: "sample \<Rightarrow> sample" where
  "fabs (Fin a) = Fin \<bar>a\<bar>"
| "fabs PInf = PInf"
| "fabs NInf = PInf"
| "fabs NaN = NaN"

text \<open>\<^verbatim>\<open>x > y\<close>: every comparison with NaN is False.\<close>

fun fgt :: "sample \<Rightarrow> sample \<Rightarrow> bool" where
  "fgt NaN _ = False"
| "fgt _ NaN = False"
| "fgt (Fin a) (Fin b) = (a > b)"
| "fgt PInf PInf = False"
| "fgt PInf _ = True"
| "fgt NInf _ = False"
| "fgt (Fin a) PInf = False"
| "fgt (Fin a) NInf = True"

fun fadd :: "sample \<Rightarrow> sample \<Rightarrow> sample" where
  "fadd NaN _ = NaN"
| "fadd _ NaN = NaN"
| "fadd (Fin a) (Fin b) = Fin (a + b)"
| "fadd PInf NInf = NaN"
| "fadd NInf PInf = NaN"
| "fadd PInf _ = PInf"
| "fadd NInf _ = NInf"
| "fadd (Fin a) PInf = PInf"
| "fadd (Fin a) NInf = NInf"

definition fsub :: "sample \<Rightarrow> sample \<Rightarrow> sample" where
  "fsub x y = fadd x (fneg y)"

fun fmul :: "sample \<Rightarrow> sample \<Rightarrow> sample" where
  "fmul NaN _ = NaN"
| "fmul _ NaN = NaN"
| "fmul (Fin a) (Fin b) = Fin (a * b)"
| "fmul PInf (Fin b) = (if b = 0 then NaN else if b > 0 then PInf else NInf)"
| "fmul NInf (Fin b) = (if b = 0 then NaN else if b > 0 then NInf else PInf)"
| "fmul (Fin a) PInf = (if a = 0 then NaN else if a > 0 then PInf else NInf)"
| "fmul (Fin a) NInf = (if a = 0 then NaN else if a > 0 then NInf else PInf)"
| "fmul PInf PInf = PInf"
| "fmul PInf NInf = NInf"
| "fmul NInf PInf = NInf"
| "fmul NInf NInf = PInf"

text \<open>
  numpy's true division: dividing by zero raises nothing (it warns) and gives an
  infinity, or NaN for 0/0.
\<close>

fun fdiv :: "sample \<Rightarrow> sample \<Rightarrow> sample" where
  "fdiv NaN _ = NaN"
| "fdiv _ NaN = NaN"
| "fdiv (Fin a) (Fin b) =
     (if b = 0 then (if a = 0 then NaN else if a > 0 then PInf else NInf)
      else Fin (a / b))"
| "fdiv (Fin a) PInf = Fin 0"
| "fdiv (Fin a) NInf = Fin 0"
| "fdiv PInf (Fin b) = (if b \<ge> 0 then PInf else NInf)"
| "fdiv NInf (Fin b) = (if b \<ge> 0 then NInf else PInf)"
| "fdiv PInf _ = NaN"
| "fdiv NInf _ = NaN"

fun fsqrt :: "sample \<Rightarrow> sample" where
  "fsqrt (Fin a) = (if a < 0 then NaN else Fin (sqrt a))"
| "fsqrt PInf = PInf"
| "fsqrt NInf = NaN"
| "fsqrt NaN = NaN"

section \<open>Matrices and errors\<close>

text \<open>
  A recording's data is a channels \<times> time matrix: a list of rows, one row per
  channel. The exceptions of the pipeline are values of \<open>error\<close>;
  \<open>InsufficientData\<close> is the name the specification gives to the failure of
  the statistics on no data, and no path of the source raises it.
\<close>

type_synonym row = "sample list"
type_synonym matrix = "row list"

datatype error =
    ResidualNan
  | IndexError
  | ValueError
  | TypeError
  | FileNotFoundError
  | InsufficientData

text \<open>
  Indexing one axis of an array with a signed integer: an index from 0 up to the
  length is taken as it is, one from minus the length up to \<open>-1\<close> is counted back
  from the end, and any other raises IndexError.
\<close>

definition py_index :: "'a list \<Rightarrow> int \<Rightarrow> error + 'a" where
  "py_index xs i =
     (if 0 \<le> i \<and> i < int (length xs) then Inr (xs ! nat i)
      else if - int (length xs) \<le> i \<and> i < 0 then Inr (xs ! nat (int (length xs) + i))
      else Inl IndexError)"

text \<open>\<^verbatim>\<open>raw_data[channel, j]\<close> read and \<^verbatim>\<open>raw_data[channel, t] = v\<close> write.\<close>

definition get2 :: "matrix \<Rightarrow> nat \<Rightarrow> int \<Rightarrow> error + sample" where
  "get2 m c j = (if c < length m then py_index (m ! c) j else Inl IndexError)"

definition set2 :: "matrix \<Rightarrow> nat \<Rightarrow> nat \<Rightarrow> sample \<Rightarrow> error + matrix" where
  "set2 m c t v =
     (if c < length m \<and> t < length (m ! c) then Inr (m[c := (m ! c)[t := v]])
      else Inl IndexError)"

section \<open>interpolate\<close>

text \<open>\<^verbatim>\<open>raw_data[abs(raw_data) > 1e2] = np.nan\<close>\<close>

definition out_of_range :: "sample \<Rightarrow> bool" where
  "out_of_range x = fgt (fabs x) (Fin 100)"

definition mask_large :: "matrix \<Rightarrow> matrix" where
  "mask_large m = map (map (\<lambda>x. if out_of_range x then NaN else x)) m"

text \<open>
  \<^verbatim>\<open>np.vstack(np.where(np.isnan(raw_data))).transpose()\<close>: the (channel, timepoint)
  pairs of the NaN cells, in row-major order.
\<close>

definition nan_times :: "row \<Rightarrow> nat list" where
  "nan_times r = filter (\<lambda>t. isnan (r ! t)) [0..<length r]"

definition nan_indices :: "matrix \<Rightarrow> (nat \<times> nat) list" where
  "nan_indices m = concat (map (\<lambda>c. map (Pair c) (nan_times (m ! c))) [0..<length m])"

text \<open>
  The loop over the NaN cells. The matrix is updated in place, so each iteration sees
  the cells repaired before it. Both \<open>before\<close> and \<open>after\<close> are read at
  \<open>timepoint - 1\<close>, as the source does.
\<close>

fun interp_loop :: "matrix \<Rightarrow> (nat \<times> nat) list \<Rightarrow> error + matrix" where
  "interp_loop m [] = Inr m"
| "interp_loop m ((channel, timepoint) # rest) =
     (case get2 m channel (int timepoint - 1) of
        Inl e \<Rightarrow> Inl e
      | Inr before \<Rightarrow>
          (case get2 m channel (int timepoint - 1) of
             Inl e \<Rightarrow> Inl e
           | Inr after \<Rightarrow>
               (case set2 m channel timepoint (fdiv (fadd before after) (Fin 2)) of
                  Inl e \<Rightarrow> Inl e
                | Inr m' \<Rightarrow> interp_loop m' rest)))"

definition interpolate :: "matrix \<Rightarrow> error + matrix" where
  "interpolate raw_data =
     (let masked = mask_large raw_data in
      case interp_loop masked (nan_indices masked) of
        Inl e \<Rightarrow> Inl e
      | Inr filled \<Rightarrow>
          if nan_indices filled \<noteq> [] then Inl ResidualNan else Inr filled)"


section \<open>z_score\<close>

text \<open>
  \<^verbatim>\<open>(raw_data - mean[:, np.newaxis]) / std[:, np.newaxis]\<close>. The vectors become
  columns of shape (K, 1) and numpy broadcasts them against the (C, T) matrix: the
  row counts must be equal, or one of them must be 1 (that operand is then repeated);
  anything else raises ValueError. Along the time axis the column's single entry is
  repeated. No operation raises on a zero divisor.
\<close>

definition broadcast_rows :: "'a list \<Rightarrow> 'b list \<Rightarrow> error + ('a \<times> 'b) list" where
  "broadcast_rows xs ys =
     (if length xs = length ys then Inr (zip xs ys)
      else if length xs = 1 then Inr (map (\<lambda>y. (hd xs, y)) ys)
      else if length ys = 1 then Inr (map (\<lambda>x. (x, hd ys)) xs)
      else Inl ValueError)"

definition col_op :: "(sample \<Rightarrow> sample \<Rightarrow> sample) \<Rightarrow> matrix \<Rightarrow> row \<Rightarrow> error + matrix" where
  "col_op f m v =
     (case broadcast_rows m v of
        Inl e \<Rightarrow> Inl e
      | Inr ps \<Rightarrow> Inr (map (\<lambda>(r, a). map (\<lambda>x. f x a) r) ps))"

definition z_score :: "matrix \<Rightarrow> row \<Rightarrow> row \<Rightarrow> error + matrix" where
  "z_score raw_data mean std =
     (case col_op fsub raw_data mean of
        Inl e \<Rightarrow> Inl e
      | Inr centred \<Rightarrow> col_op fdiv centred std)"




section \<open>open_and_interpolate\<close>

text \<open>
  What the code uses of MNE, the file system and the path bookkeeping is a
  parameter of the model:
  \<^item> \<open>read_raw_fif\<close> gives the recording stored under a path, as the list of
    its channels (name and samples) in the order the file stores them, or nothing
    when there is no such file;
  \<^item> \<open>raw_filter l h tb\<close> is \<^verbatim>\<open>Raw.filter(l, h)\<close> on one channel, with the
    transition bandwidths \<open>tb\<close> when they are given; MNE filters every channel on
    its own and keeps the shape;
  \<^item> \<open>output_path\<close> is
    \<^verbatim>\<open>file.replace(".fif", ".npy").replace(input_dir, output_dir)\<close> and
    \<open>band_path\<close> is \<^verbatim>\<open>output_file.replace(".npy", f"_{band_name}.npy")\<close>.
\<close>

type_synonym recording = "(string \<times> row) list"

record env =
  read_raw_fif :: "string \<Rightarrow> recording option"
  raw_filter :: "real \<Rightarrow> real \<Rightarrow> real option \<Rightarrow> row \<Rightarrow> row"
  output_path :: "string \<Rightarrow> string"
  band_path :: "string \<Rightarrow> string \<Rightarrow> string"

definition CH_NAMES :: "string list" where
  "CH_NAMES =
     [''Cz'', ''Fz'', ''Fp1'', ''F7'', ''F3'', ''FC1'', ''C3'', ''FC5'', ''FT9'', ''T7'',
      ''CP5'', ''CP1'', ''P3'', ''P7'', ''PO9'', ''O1'', ''Pz'', ''Oz'', ''O2'', ''PO10'',
      ''P8'', ''P4'', ''CP2'', ''CP6'', ''T8'', ''FT10'', ''FC6'', ''C4'', ''FC2'', ''F4'',
      ''F8'', ''Fp2'']"

text \<open>\<^verbatim>\<open>drop = [ch for ch in all_ch if ch not in CH_NAMES]\<close>\<close>

definition drop_list :: "recording \<Rightarrow> string list" where
  "drop_list raw = filter (\<lambda>ch. ch \<notin> set CH_NAMES) (map fst raw)"

text \<open>\<^verbatim>\<open>raw_data.drop_channels(drop)\<close>: the other channels stay, in their order.\<close>

definition drop_channels :: "string list \<Rightarrow> recording \<Rightarrow> recording" where
  "drop_channels names raw = filter (\<lambda>(ch, r). ch \<notin> set names) raw"

definition get_data :: "recording \<Rightarrow> matrix" where
  "get_data raw = map snd raw"

text \<open>
  The result of loading: one matrix, or one matrix per band. The bands are filtered
  one after the other on the same Raw object, which \<^verbatim>\<open>filter\<close> changes in place.
\<close>

datatype loaded = Single matrix | Banded "(string \<times> matrix) list"

definition bands :: "(string \<times> real \<times> real) list" where
  "bands = [(''theta'', 4, 8), (''alpha'', 8, 12), (''beta'', 13, 30), (''gamma'', 30, 60)]"

fun isolate_loop :: "env \<Rightarrow> matrix \<Rightarrow> (string \<times> real \<times> real) list \<Rightarrow> (string \<times> matrix) list" where
  "isolate_loop E data [] = []"
| "isolate_loop E data ((band_name, low, high) # rest) =
     (let band = map (raw_filter E low high (Some 1)) data
      in (band_name, band) # isolate_loop E band rest)"

definition isolate_bands :: "env \<Rightarrow> matrix \<Rightarrow> (string \<times> matrix) list" where
  "isolate_bands E data = isolate_loop E data bands"

text \<open>
  The log is the list of the lines printed. \<^verbatim>\<open>mne.io.RawArray\<close> raises ValueError
  when the number of rows is not the number of names in \<open>info\<close>, here the 32
  names of \<open>CH_NAMES\<close>.
\<close>

definition residual_message :: "string \<Rightarrow> string" where
  "residual_message file = ''Residual NaNs in '' @ file"

definition open_and_interpolate ::
  "env \<Rightarrow> string list \<Rightarrow> string \<Rightarrow> bool \<Rightarrow> error + (loaded option \<times> string list)" where
  "open_and_interpolate E lg file split_bands =
     (case read_raw_fif E file of
        None \<Rightarrow> Inl FileNotFoundError
      | Some raw \<Rightarrow>
          (case interpolate (get_data (drop_channels (drop_list raw) raw)) of
             Inl ResidualNan \<Rightarrow> Inr (None, lg @ [residual_message file])
           | Inl e \<Rightarrow> Inl e
           | Inr interpolated \<Rightarrow>
               if length interpolated \<noteq> length CH_NAMES then Inl ValueError
               else
                 let filtered = map (raw_filter E 1 50 None) interpolated in
                 if split_bands then Inr (Some (Banded (isolate_bands E filtered)), lg)
                 else Inr (Some (Single filtered), lg)))"

section \<open>get_stats\<close>

text \<open>
  \<^verbatim>\<open>np.concatenate(tmp, axis=1)\<close>: ValueError on an empty list, on any element
  that is not a 2-dimensional array (None, a dict), and on matrices whose row counts
  differ; otherwise the rows are joined along the time axis.
\<close>

fun as_array :: "loaded option \<Rightarrow> matrix option" where
  "as_array (Some (Single m)) = Some m"
| "as_array _ = None"

definition np_concatenate :: "loaded option list \<Rightarrow> error + matrix" where
  "np_concatenate tmp =
     (if tmp = [] then Inl ValueError
      else case those (map as_array tmp) of
        None \<Rightarrow> Inl ValueError
      | Some ms \<Rightarrow>
          if list_ex (\<lambda>m. length m \<noteq> length (hd ms)) ms then Inl ValueError
          else Inr (map (\<lambda>c. concat (map (\<lambda>m. m ! c) ms)) [0..<length (hd ms)]))"

definition fsum :: "row \<Rightarrow> sample" where
  "fsum r = foldl fadd (Fin 0) r"

definition np_mean :: "matrix \<Rightarrow> row" where
  "np_mean data = map (\<lambda>r. fdiv (fsum r) (Fin (real (length r)))) data"

definition np_std :: "matrix \<Rightarrow> row" where
  "np_std data =
     map (\<lambda>r. let mu = fdiv (fsum r) (Fin (real (length r)))
              in fsqrt (fdiv (fsum (map (\<lambda>x. fmul (fsub x mu) (fsub x mu)) r))
                             (Fin (real (length r))))) data"

text \<open>The loop that fills \<open>tmp\<close>: every result is appended, None included.\<close>

fun load_all ::
  "env \<Rightarrow> string list \<Rightarrow> string list \<Rightarrow> error + (loaded option list \<times> string list)" where
  "load_all E lg [] = Inr ([], lg)"
| "load_all E lg (file # files) =
     (case open_and_interpolate E lg file False of
        Inl e \<Rightarrow> Inl e
      | Inr (raw_data, lg1) \<Rightarrow>
          (case load_all E lg1 files of
             Inl e \<Rightarrow> Inl e
           | Inr (tmp, lg2) \<Rightarrow> Inr (raw_data # tmp, lg2)))"

definition get_stats ::
  "env \<Rightarrow> string list \<Rightarrow> string list \<Rightarrow> error + ((row \<times> row) \<times> string list)" where
  "get_stats E lg file_list =
     (case load_all E lg file_list of
        Inl e \<Rightarrow> Inl e
      | Inr (tmp, lg1) \<Rightarrow>
          (case np_concatenate tmp of
             Inl e \<Rightarrow> Inl e
           | Inr data \<Rightarrow> Inr ((np_mean data, np_std data), lg1)))"

section \<open>The per-file loop of main\<close>

text \<open>
  The state of the loop \<^verbatim>\<open>for file in tqdm(files)\<close>: the lines printed and the
  arrays written by \<^verbatim>\<open>np.save\<close>, each with its path, in the order written.
\<close>

record run_state =
  printed :: "string list"
  saved :: "(string \<times> matrix) list"

fun save_bands ::
  "env \<Rightarrow> row \<Rightarrow> row \<Rightarrow> string \<Rightarrow> (string \<times> matrix) list \<Rightarrow> (string \<times> matrix) list
     \<Rightarrow> error + (string \<times> matrix) list" where
  "save_bands E mean std output_file [] out = Inr out"
| "save_bands E mean std output_file ((band_name, data) # rest) out =
     (case z_score data mean std of
        Inl e \<Rightarrow> Inl e
      | Inr z_data \<Rightarrow>
          save_bands E mean std output_file rest
            (out @ [(band_path E output_file band_name, z_data)]))"

text \<open>
  With \<open>split_bands\<close> the loaded value is a dict of bands, without it a matrix;
  \<open>open_and_interpolate\<close> never returns the other shape, on which the loop would
  raise (a matrix has no \<^verbatim>\<open>keys\<close>, a dict cannot be subtracted from).
\<close>

fun main_loop ::
  "env \<Rightarrow> row \<Rightarrow> row \<Rightarrow> bool \<Rightarrow> run_state \<Rightarrow> string list \<Rightarrow> error + run_state" where
  "main_loop E mean std split_bands st [] = Inr st"
| "main_loop E mean std split_bands st (file # files) =
     (case open_and_interpolate E (printed st) file split_bands of
        Inl e \<Rightarrow> Inl e
      | Inr (None, lg) \<Rightarrow> main_loop E mean std split_bands (st\<lparr>printed := lg\<rparr>) files
      | Inr (Some raw_data, lg) \<Rightarrow>
          (if split_bands then
             (case raw_data of
                Single m \<Rightarrow> Inl TypeError
              | Banded bs \<Rightarrow>
                  (case save_bands E mean std (output_path E file) bs (saved st) of
                     Inl e \<Rightarrow> Inl e
                   | Inr out \<Rightarrow>
                       main_loop E mean std split_bands (st\<lparr>printed := lg, saved := out\<rparr>) files))
           else
             (case raw_data of
                Banded bs \<Rightarrow> Inl TypeError
              | Single m \<Rightarrow>
                  (case z_score m mean std of
                     Inl e \<Rightarrow> Inl e
                   | Inr z_data \<Rightarrow>
                       main_loop E mean std split_bands
                         (st\<lparr>printed := lg, saved := saved st @ [(output_path E file, z_data)]\<rparr>)
                         files))))"

section \<open>main\<close>

text \<open>
  main from the point where the files are listed and the splits are loaded.
  \<open>files\<close> is the list of the \<^verbatim>\<open>.fif\<close> files found; \<open>train\<close> is
  \<^verbatim>\<open>splits["train"]\<close>, each entry with the path of its file under the training
  directory and its \<^verbatim>\<open>subject_id\<close>. Of the lines printed the model keeps those
  of \<open>open_and_interpolate\<close>; the progress messages of main are left out.

  \<^verbatim>\<open>train_files_per_subject\<close> is a dict from subject to the list of its training
  files: a new subject is added at the end, a file is appended to the list of its
  subject.
\<close>

fun add_subject ::
  "string \<Rightarrow> string \<Rightarrow> (string \<times> string list) list \<Rightarrow> (string \<times> string list) list" where
  "add_subject subject path [] = [(subject, [path])]"
| "add_subject subject path ((s, paths) # rest) =
     (if s = subject then (s, paths @ [path]) # rest
      else (s, paths) # add_subject subject path rest)"

definition train_files_per_subject ::
  "(string \<times> string) list \<Rightarrow> (string \<times> string list) list" where
  "train_files_per_subject train =
     foldl (\<lambda>d (path, subject). add_subject subject path d) [] train"

text \<open>
  \<^verbatim>\<open>{subject_id : get_stats(files) for subject_id, files in ...items()}\<close>: one call
  of get_stats per subject, in the order of the dict; the first exception ends it.
\<close>

fun stats_per_subject ::
  "env \<Rightarrow> string list \<Rightarrow> (string \<times> string list) list
     \<Rightarrow> error + ((string \<times> (row \<times> row)) list \<times> string list)" where
  "stats_per_subject E lg [] = Inr ([], lg)"
| "stats_per_subject E lg ((subject_id, paths) # rest) =
     (case get_stats E lg paths of
        Inl e \<Rightarrow> Inl e
      | Inr (stats, lg1) \<Rightarrow>
          (case stats_per_subject E lg1 rest of
             Inl e \<Rightarrow> Inl e
           | Inr (others, lg2) \<Rightarrow> Inr ((subject_id, stats) # others, lg2)))"

text \<open>
  The global statistics over all training files, then the statistics per subject
  (computed, and not used by the loop), then the loop over the files with the global
  mean and std.
\<close>

definition main ::
  "env \<Rightarrow> bool \<Rightarrow> string list \<Rightarrow> (string \<times> string) list \<Rightarrow> error + run_state" where
  "main E split_bands files train =
     (case get_stats E [] (map fst train) of
        Inl e \<Rightarrow> Inl e
      | Inr ((mean, std), lg1) \<Rightarrow>
          (case stats_per_subject E lg1 (train_files_per_subject train) of
             Inl e \<Rightarrow> Inl e
           | Inr (subject_stats, lg2) \<Rightarrow>
               main_loop E mean std split_bands \<lparr>printed = lg2, saved = []\<rparr> files))"

section \<open>Predicates on matrices used by the properties\<close>

text \<open>A cell index that lies inside the matrix.\<close>

definition valid_idx :: "matrix \<Rightarrow> nat \<times> nat \<Rightarrow> bool" where
  "valid_idx m p = (fst p < length m \<and> snd p < length (m ! fst p))"

definition no_out_of_range :: "matrix \<Rightarrow> bool" where
  "no_out_of_range m = list_all (list_all (\<lambda>x. \<not> out_of_range x)) m"

definition no_nan :: "matrix \<Rightarrow> bool" where
  "no_nan m = list_all (list_all (\<lambda>x. \<not> isnan x)) m"

text \<open>
  The Interpolator fails on a file: the file is there and interpolate raises
  ResidualNan on the channels kept from it.
\<close>

definition fails_to_load :: "env \<Rightarrow> string \<Rightarrow> bool" where
  "fails_to_load E file =
     (case read_raw_fif E file of
        None \<Rightarrow> False
      | Some raw \<Rightarrow>
          interpolate (get_data (drop_channels (drop_list raw) raw)) = Inl ResidualNan)"


section \<open>Example recordings\<close>

text \<open>
  An environment whose filter leaves every channel as it is, over a given file
  store; a recording with the 32 canonical channels in canonical order, all with the
  same samples; a recording that stores Fz before Cz; and a store with a recording that loads,
  one on which interpolate fails (a single sample above the threshold is its own
  neighbour at index \<open>-1\<close>) and the recording with Fz first.
\<close>

definition identity_env :: "(string \<Rightarrow> recording option) \<Rightarrow> env" where
  "identity_env fs =
     \<lparr>read_raw_fif = fs, raw_filter = (\<lambda>l h tb r. r), output_path = (\<lambda>f. f),
      band_path = (\<lambda>f b. f @ b)\<rparr>"

definition constant_recording :: "row \<Rightarrow> recording" where
  "constant_recording r = map (\<lambda>ch. (ch, r)) CH_NAMES"

definition swapped_recording :: recording where
  "swapped_recording =
     (''Fz'', [Fin 2]) # (''Cz'', [Fin 1]) # map (\<lambda>ch. (ch, [Fin 0])) (drop 2 CH_NAMES)"

definition example_files :: "string \<Rightarrow> recording option" where
  "example_files f =
     (if f = ''good.fif'' then Some (constant_recording [Fin 1, Fin 3])
      else if f = ''bad.fif'' then Some (constant_recording [Fin 500])
      else if f = ''swapped.fif'' then Some swapped_recording
      else None)"

definition example_env :: env where
  "example_env = identity_env example_files"

section \<open>The interpolation loop\<close>

lemma py_index_pred:
  assumes "t < length xs"
  shows "py_index xs (int t - 1) = Inr (if t = 0 then last xs else xs ! (t - 1))"
proof (cases "t = 0")
  case True
  with assms have ne: "xs \<noteq> []" by auto
  from True assms have "0 < length xs" by simp
  then have one: "Suc 0 \<le> length xs" by (rule Suc_leI)
  from ne have "nat (int (length xs) - 1) = length xs - 1" by simp
  with True ne one show ?thesis
    by (simp add: py_index_def last_conv_nth)
next
  case False
  then have "nat (int t - 1) = t - 1" by simp
  with False assms show ?thesis
    by (simp add: py_index_def)
qed

lemma get2_pred:
  assumes "valid_idx m (c, t)"
  shows "get2 m c (int t - 1) = Inr (if t = 0 then last (m ! c) else m ! c ! (t - 1))"
  using assms by (simp add: get2_def valid_idx_def py_index_pred)

lemma set2_valid:
  assumes "valid_idx m (c, t)"
  shows "set2 m c t v = Inr (m[c := (m ! c)[t := v]])"
  using assms by (simp add: set2_def valid_idx_def)

lemma shape_update: "c < length m \<Longrightarrow> map length (m[c := (m ! c)[t := v]]) = map length m"
  by (simp add: map_update list_update_same_conv)

lemma valid_idx_shape:
  assumes "map length m' = map length m"
  shows "valid_idx m' p = valid_idx m p"
proof -
  have l: "length m' = length m" using assms by (metis length_map)
  have "\<And>c. c < length m \<Longrightarrow> length (m' ! c) = length (m ! c)"
    using assms l by (metis nth_map)
  with l show ?thesis by (auto simp: valid_idx_def)
qed



lemma interp_loop_valid:
  assumes "\<forall>p \<in> set idxs. valid_idx m p"
  shows "\<exists>m'. interp_loop m idxs = Inr m' \<and> map length m' = map length m \<and>
           (\<forall>c t. (c, t) \<notin> set idxs \<longrightarrow> m' ! c ! t = m ! c ! t)"
  using assms
proof (induction idxs arbitrary: m)
  case Nil
  then show ?case by simp
next
  case (Cons p idxs)
  obtain c t where p: "p = (c, t)" by (cases p)
  from Cons.prems p have v: "valid_idx m (c, t)" by simp
  define w where "w = (if t = 0 then last (m ! c) else m ! c ! (t - 1))"
  define m1 where "m1 = m[c := (m ! c)[t := fdiv (fadd w w) (Fin 2)]]"
  from v have sh: "map length m1 = map length m"
    unfolding m1_def by (simp add: shape_update valid_idx_def)
  have step: "interp_loop m (p # idxs) = interp_loop m1 idxs"
    using v by (simp add: p get2_pred set2_valid w_def m1_def)
  from Cons.prems have "\<forall>q \<in> set idxs. valid_idx m1 q"
    unfolding valid_idx_shape [OF sh] by simp
  from Cons.IH [OF this] obtain m' where
    r: "interp_loop m1 idxs = Inr m'" and
    s: "map length m' = map length m1" and
    u: "\<forall>c' t'. (c', t') \<notin> set idxs \<longrightarrow> m' ! c' ! t' = m1 ! c' ! t'"
    by blast
  have "m' ! c' ! t' = m ! c' ! t'" if "(c', t') \<notin> set (p # idxs)" for c' t'
  proof -
    from that have a: "(c', t') \<notin> set idxs" and b: "(c', t') \<noteq> (c, t)" by (auto simp: p)
    from u a have "m' ! c' ! t' = m1 ! c' ! t'" by blast
    also have "\<dots> = m ! c' ! t'"
    proof (cases "c' = c")
      case True
      with b have "t' \<noteq> t" by simp
      with True v show ?thesis by (simp add: m1_def valid_idx_def)
    next
      case False
      then show ?thesis by (simp add: m1_def)
    qed
    finally show ?thesis .
  qed
  then have "\<forall>c' t'. (c', t') \<notin> set (p # idxs) \<longrightarrow> m' ! c' ! t' = m ! c' ! t'"
    by blast
  moreover have "interp_loop m (p # idxs) = Inr m'"
    using step r by simp
  moreover have "map length m' = map length m"
    using s sh by simp
  ultimately show ?case by blast
qed




lemma mask_large_id:
  assumes "no_out_of_range m"
  shows "mask_large m = m"
proof -
  have "(if out_of_range x then NaN else x) = x" if "r \<in> set m" and "x \<in> set r" for r x
    using that assms by (simp add: no_out_of_range_def list_all_iff)
  then have "map (\<lambda>x. if out_of_range x then NaN else x) r = r" if "r \<in> set m" for r
    using that by (simp add: map_idI)
  then show ?thesis
    unfolding mask_large_def by (rule map_idI)
qed

lemma nan_times_iff: "t \<in> set (nan_times r) \<longleftrightarrow> t < length r \<and> isnan (r ! t)"
  by (auto simp: nan_times_def)

lemma nan_indices_iff:
  "(c, t) \<in> set (nan_indices m) \<longleftrightarrow> c < length m \<and> t < length (m ! c) \<and> isnan (m ! c ! t)"
proof
  assume "(c, t) \<in> set (nan_indices m)"
  then show "c < length m \<and> t < length (m ! c) \<and> isnan (m ! c ! t)"
    by (auto simp: nan_indices_def nan_times_iff)
next
  assume a: "c < length m \<and> t < length (m ! c) \<and> isnan (m ! c ! t)"
  then have "t \<in> set (nan_times (m ! c))" by (simp add: nan_times_iff)
  then have "(c, t) \<in> Pair c ` set (nan_times (m ! c))" by simp
  moreover from a have "c \<in> set [0..<length m]" by simp
  ultimately show "(c, t) \<in> set (nan_indices m)"
    by (auto simp: nan_indices_def)
qed

lemma nan_indices_valid: "p \<in> set (nan_indices m) \<Longrightarrow> valid_idx m p"
  by (cases p) (simp add: nan_indices_iff valid_idx_def)

lemma nan_indices_empty_no_nan:
  assumes "no_nan m"
  shows "nan_indices m = []"
proof -
  have "(c, t) \<notin> set (nan_indices m)" for c t
  proof
    assume "(c, t) \<in> set (nan_indices m)"
    then have c: "c < length m" and t: "t < length (m ! c)" and n: "isnan (m ! c ! t)"
      by (simp_all add: nan_indices_iff)
    from c have "m ! c \<in> set m" by simp
    moreover from t have "m ! c ! t \<in> set (m ! c)" by simp
    ultimately have "\<not> isnan (m ! c ! t)"
      using assms unfolding no_nan_def list_all_iff by blast
    with n show False by simp
  qed
  then have "p \<notin> set (nan_indices m)" for p
    by (cases p) simp
  then show ?thesis
    by (cases "nan_indices m") auto
qed





section \<open>Broadcasting and the arithmetic of z_score\<close>





section \<open>Loading, the statistics and the loop of main\<close>




lemma interpolate_errors:
  "interpolate m = Inl e \<Longrightarrow> e = ResidualNan"
proof -
  assume a: "interpolate m = Inl e"
  have "\<forall>p \<in> set (nan_indices (mask_large m)). valid_idx (mask_large m) p"
    by (simp add: nan_indices_valid)
  from interp_loop_valid [OF this] obtain filled where
    r: "interp_loop (mask_large m) (nan_indices (mask_large m)) = Inr filled"
    by blast
  from a r show ?thesis
    by (simp add: interpolate_def split: if_splits)
qed



lemma open_fails:
  assumes "fails_to_load E file"
  shows "open_and_interpolate E lg file split_bands = Inr (None, lg @ [residual_message file])"
  using assms by (auto simp: fails_to_load_def open_and_interpolate_def split: option.splits)


lemma main_loop_skips:
  assumes "fails_to_load E file"
  shows "main_loop E mean std split_bands st (file # files) =
         main_loop E mean std split_bands (st\<lparr>printed := printed st @ [residual_message file]\<rparr>) files"
  by (simp add: open_fails [OF assms])

lemma load_all_fail:
  assumes "\<forall>f \<in> set files. fails_to_load E f"
  shows "load_all E lg files = Inr (map (\<lambda>f. None) files, lg @ map residual_message files)"
  using assms
proof (induction files arbitrary: lg)
  case Nil
  show ?case by simp
next
  case (Cons f files)
  then show ?case by (simp add: open_fails)
qed

lemma np_concatenate_no_array:
  "np_concatenate (map (\<lambda>f. None) files) = Inl ValueError"
  by (cases files) (simp_all add: np_concatenate_def)

lemma get_stats_all_fail:
  assumes "\<forall>f \<in> set files. fails_to_load E f"
  shows "get_stats E lg files = Inl ValueError"
  by (simp add: get_stats_def load_all_fail [OF assms] np_concatenate_no_array)

text \<open>The example recordings, loaded.\<close>

lemmas example_defs = example_env_def identity_env_def example_files_def constant_recording_def
  swapped_recording_def CH_NAMES_def

lemmas loader_defs = open_and_interpolate_def get_data_def drop_channels_def drop_list_def
  interpolate_def mask_large_def out_of_range_def nan_indices_def nan_times_def
  get2_def set2_def py_index_def residual_message_def Let_def

lemma good_loads:
  "open_and_interpolate example_env lg ''good.fif'' False
     = Inr (Some (Single (get_data (constant_recording [Fin 1, Fin 3]))), lg)"
  by (simp add: example_defs loader_defs)

lemma bad_fails: "fails_to_load example_env ''bad.fif''"
  by (simp add: fails_to_load_def example_defs loader_defs)


text \<open>A recording that failed to load stops the statistics, and with them main.\<close>

lemma those_None: "None \<in> set xs \<Longrightarrow> those xs = None"
  by (induction xs) (auto split: option.splits)

lemma np_concatenate_None:
  assumes "None \<in> set tmp"
  shows "np_concatenate tmp = Inl ValueError"
proof -
  from assms have "None \<in> set (map as_array tmp)" by force
  then have "those (map as_array tmp) = None" by (rule those_None)
  then show ?thesis by (simp add: np_concatenate_def)
qed

lemma load_all_keeps_None:
  assumes "fails_to_load E f" and "f \<in> set files"
  shows "(\<exists>e. load_all E lg files = Inl e) \<or>
         (\<exists>tmp lg'. load_all E lg files = Inr (tmp, lg') \<and> None \<in> set tmp)"
  using assms(2)
proof (induction files arbitrary: lg)
  case Nil
  then show ?case by simp
next
  case (Cons g files)
  show ?case
  proof (cases "g = f")
    case True
    then show ?thesis
      by (auto simp: open_fails [OF assms(1)] split: sum.splits)
  next
    case False
    with Cons.prems have mem: "f \<in> set files" by simp
    show ?thesis
    proof (cases "open_and_interpolate E lg g False")
      case (Inl e)
      then show ?thesis by simp
    next
      case (Inr p)
      obtain r lg1 where p: "p = (r, lg1)" by (cases p)
      from Cons.IH [OF mem, of lg1] show ?thesis
      proof
        assume "\<exists>e. load_all E lg1 files = Inl e"
        then show ?thesis using Inr p by auto
      next
        assume "\<exists>tmp lg'. load_all E lg1 files = Inr (tmp, lg') \<and> None \<in> set tmp"
        then show ?thesis using Inr p by auto
      qed
    qed
  qed
qed

lemma get_stats_raises_on_failed_file:
  assumes "fails_to_load E f" and "f \<in> set files"
  shows "\<exists>e. get_stats E lg files = Inl e"
  using load_all_keeps_None [OF assms, of lg]
  by (auto simp: get_stats_def np_concatenate_None)

lemma main_raises_on_failed_training_file:
  assumes "fails_to_load E f" and "f \<in> set (map fst train)"
  shows "\<exists>e. main E split_bands files train = Inl e"
  using get_stats_raises_on_failed_file [OF assms, of "[]"]
  by (auto simp: main_def)

lemma example_stats_good:
  "get_stats example_env lg [''good.fif'']
     = Inr ((map (\<lambda>ch. Fin 2) CH_NAMES, map (\<lambda>ch. Fin 1) CH_NAMES), lg)"
proof -
  have "load_all example_env lg [''good.fif'']
          = Inr ([Some (Single (get_data (constant_recording [Fin 1, Fin 3])))], lg)"
    by (simp add: good_loads)
  then show ?thesis
    by (simp add: get_stats_def np_concatenate_def np_mean_def np_std_def fsum_def fsub_def
        get_data_def constant_recording_def CH_NAMES_def)
qed

lemma example_stats_good_bad:
  "get_stats example_env lg [''good.fif'', ''bad.fif''] = Inl ValueError"
proof -
  have "load_all example_env lg [''good.fif'', ''bad.fif'']
          = Inr ([Some (Single (get_data (constant_recording [Fin 1, Fin 3]))), None],
                 lg @ [residual_message ''bad.fif''])"
    by (simp add: good_loads open_fails [OF bad_fails])
  then show ?thesis
    by (simp add: get_stats_def np_concatenate_def)
qed

lemma example_loop:
  "main_loop example_env (map (\<lambda>ch. Fin 2) CH_NAMES) (map (\<lambda>ch. Fin 1) CH_NAMES) False
       \<lparr>printed = [], saved = []\<rparr> [''bad.fif'', ''good.fif'']
     = Inr \<lparr>printed = [''Residual NaNs in bad.fif''],
            saved = [(''good.fif'', map (\<lambda>ch. [Fin (- 1), Fin 1]) CH_NAMES)]\<rparr>"
proof -
  have z: "z_score (get_data (constant_recording [Fin 1, Fin 3]))
             (map (\<lambda>ch. Fin 2) CH_NAMES) (map (\<lambda>ch. Fin 1) CH_NAMES)
           = Inr (map (\<lambda>ch. [Fin (- 1), Fin 1]) CH_NAMES)"
    by (simp add: z_score_def col_op_def broadcast_rows_def fsub_def get_data_def
        constant_recording_def CH_NAMES_def)
  have p: "output_path example_env ''good.fif'' = ''good.fif''"
    by (simp add: example_env_def identity_env_def)
  show ?thesis
    by (simp add: open_fails [OF bad_fails] good_loads z p residual_message_def)
qed

section \<open>Properties of interpolate\<close>

text \<open>
  C1. The claim: an isolated sample above the threshold with valid neighbours at
  \<open>t - 1\<close> and \<open>t + 1\<close> is replaced by the mean of the two; a spike of 500.0 at
  time index 5 of channel 0 with neighbours 1.0 and 3.0 is repaired to 2.0.
  The source reads \<open>after\<close> at \<open>timepoint - 1\<close> as well (under the comment
  "get value after the point"), so the repaired value is the left neighbour alone:
  on this input the code returns 1.0 at index 5, not 2.0.
\<close>

theorem interpolate_spike_takes_left_neighbour:
  "interpolate [[Fin 0, Fin 0, Fin 0, Fin 0, Fin 1, Fin 500, Fin 3, Fin 0]]
     = Inr [[Fin 0, Fin 0, Fin 0, Fin 0, Fin 1, Fin 1, Fin 3, Fin 0]]"
  by (simp add: interpolate_def mask_large_def out_of_range_def nan_indices_def
      nan_times_def get2_def set2_def py_index_def Let_def)

text \<open>
  C3. The claim: a matrix with two or more consecutive samples above the threshold
  in one channel makes interpolate fail with ResidualNan. Because both reads are at
  \<open>timepoint - 1\<close> and the matrix is updated in place, the second sample of a run
  reads the repaired first one: the run is filled forward with the value before it
  and no NaN is left. On the run 500, 500 between 1 and 3 the code returns the
  matrix 1, 1, 1, 3 and raises nothing.
\<close>

theorem interpolate_run_is_forward_filled:
  "interpolate [[Fin 1, Fin 500, Fin 500, Fin 3]] = Inr [[Fin 1, Fin 1, Fin 1, Fin 3]]"
  by (simp add: interpolate_def mask_large_def out_of_range_def nan_indices_def
      nan_times_def get2_def set2_def py_index_def Let_def)

text \<open>
  C9. The claim: a matrix in which no sample's absolute value exceeds 100.0 is
  returned unchanged. A NaN already in the input does not exceed the threshold
  (the comparison is False), yet it is found by \<open>np.isnan\<close> and overwritten: the
  claim fails on the matrix 1, NaN, 3, which comes back as 1, 1, 3.
\<close>

theorem interpolate_identity_counterexample:
  "no_out_of_range [[Fin 1, NaN, Fin 3]] \<and>
   interpolate [[Fin 1, NaN, Fin 3]] = Inr [[Fin 1, Fin 1, Fin 3]] \<and>
   interpolate [[Fin 1, NaN, Fin 3]] \<noteq> Inr [[Fin 1, NaN, Fin 3]]"
  by (simp add: interpolate_def mask_large_def out_of_range_def no_out_of_range_def
      nan_indices_def nan_times_def get2_def set2_def py_index_def Let_def)

text \<open>
  C9, amended: a matrix with no NaN sample and no sample whose absolute value exceeds
  100.0 is returned unchanged.
\<close>

theorem interpolate_identity:
  assumes "no_out_of_range m" and "no_nan m"
  shows "interpolate m = Inr m"
  using assms by (simp add: interpolate_def mask_large_id nan_indices_empty_no_nan)

theorem interpolate_identity_witness:
  "no_out_of_range [[Fin 1, Fin 2], [Fin (- 100), Fin 100]] \<and>
   no_nan [[Fin 1, Fin 2], [Fin (- 100), Fin 100]] \<and>
   interpolate [[Fin 1, Fin 2], [Fin (- 100), Fin 100]]
     = Inr [[Fin 1, Fin 2], [Fin (- 100), Fin 100]]"
proof -
  have a: "no_out_of_range [[Fin 1, Fin 2], [Fin (- 100), Fin 100]]"
    by (simp add: no_out_of_range_def out_of_range_def)
  have b: "no_nan [[Fin 1, Fin 2], [Fin (- 100), Fin 100]]"
    by (simp add: no_nan_def)
  from a b interpolate_identity [OF a b] show ?thesis by simp
qed



section \<open>Properties of z_score\<close>






section \<open>Properties of open_and_interpolate, get_stats and main\<close>




text \<open>
  C7. The claim: for every file on which interpolate fails with ResidualNan,
  open_and_interpolate prints the file's path and returns None, and the batch driver
  skips that file and goes on with the remaining files. open_and_interpolate does
  so, and the loop of main passes over a None; but main calls get_stats on the
  training files before the loop, and get_stats raises on a recording that failed to
  load (see C2). When the failing file is a training file, main raises ValueError
  before any file is written. With the failing file outside the training list, the
  same run prints its path, skips it and saves the other file.
\<close>

theorem main_aborts_on_failed_training_file:
  "fails_to_load example_env ''bad.fif'' \<and>
   open_and_interpolate example_env [] ''bad.fif'' False
     = Inr (None, [''Residual NaNs in bad.fif'']) \<and>
   main example_env False [''bad.fif'', ''good.fif'']
       [(''good.fif'', ''s1''), (''bad.fif'', ''s2'')] = Inl ValueError \<and>
   main example_env False [''bad.fif'', ''good.fif''] [(''good.fif'', ''s1'')]
     = Inr \<lparr>printed = [''Residual NaNs in bad.fif''],
            saved = [(''good.fif'', map (\<lambda>ch. [Fin (- 1), Fin 1]) CH_NAMES)]\<rparr>"
proof -
  have a: "fails_to_load example_env ''bad.fif''"
    by (rule bad_fails)
  have b: "open_and_interpolate example_env [] ''bad.fif'' False
     = Inr (None, [''Residual NaNs in bad.fif''])"
    using open_fails [OF a, of "[]" False] by (simp add: residual_message_def)
  have c: "main example_env False [''bad.fif'', ''good.fif'']
       [(''good.fif'', ''s1''), (''bad.fif'', ''s2'')] = Inl ValueError"
    by (simp add: main_def example_stats_good_bad)
  have d: "main example_env False [''bad.fif'', ''good.fif''] [(''good.fif'', ''s1'')]
     = Inr \<lparr>printed = [''Residual NaNs in bad.fif''],
            saved = [(''good.fif'', map (\<lambda>ch. [Fin (- 1), Fin 1]) CH_NAMES)]\<rparr>"
    by (simp add: main_def train_files_per_subject_def example_stats_good example_loop
        del: main_loop.simps)
  from a b c d show ?thesis by simp
qed

text \<open>
  C2. The claim: get_stats discards every recording that failed to load and
  computes the statistics on the others. get_stats appends every result to
  \<open>tmp\<close>, None included (main tests \<open>raw_data is None\<close>, get_stats does not),
  and \<open>np.concatenate\<close> raises ValueError on a list with a None: with one
  recording that loads and one that fails, the code raises, where the claim gives
  the statistics of the first recording alone (mean 2 and std 1 per channel).
\<close>

theorem get_stats_keeps_failed_recording:
  "get_stats example_env [] [''good.fif'', ''bad.fif''] = Inl ValueError \<and>
   get_stats example_env [] [''good.fif'']
     = Inr ((map (\<lambda>ch. Fin 2) CH_NAMES, map (\<lambda>ch. Fin 1) CH_NAMES), [])"
proof -
  have "load_all example_env [] [''good.fif'', ''bad.fif'']
          = Inr ([Some (Single (get_data (constant_recording [Fin 1, Fin 3]))), None],
                 [residual_message ''bad.fif''])"
    by (simp add: good_loads open_fails [OF bad_fails])
  then have a: "get_stats example_env [] [''good.fif'', ''bad.fif''] = Inl ValueError"
    by (simp add: get_stats_def np_concatenate_def)
  have "load_all example_env [] [''good.fif'']
          = Inr ([Some (Single (get_data (constant_recording [Fin 1, Fin 3])))], [])"
    by (simp add: good_loads)
  then have b: "get_stats example_env [] [''good.fif'']
     = Inr ((map (\<lambda>ch. Fin 2) CH_NAMES, map (\<lambda>ch. Fin 1) CH_NAMES), [])"
    by (simp add: get_stats_def np_concatenate_def np_mean_def np_std_def fsum_def fsub_def
        get_data_def constant_recording_def CH_NAMES_def)
  from a b show ?thesis by simp
qed

text \<open>
  C6. The claim: on an empty list, or when every recording fails to load, get_stats
  fails with an InsufficientData error. The source has no such error: what is
  raised is the ValueError of \<open>np.concatenate\<close>, on the empty list and on a list
  of None alike.
\<close>

theorem get_stats_no_data_counterexample:
  "get_stats example_env [] [] = Inl ValueError \<and>
   get_stats example_env [] [] \<noteq> Inl InsufficientData \<and>
   get_stats example_env [] [''bad.fif'', ''bad.fif''] = Inl ValueError \<and>
   get_stats example_env [] [''bad.fif'', ''bad.fif''] \<noteq> Inl InsufficientData"
proof -
  have "\<forall>f \<in> set [''bad.fif'', ''bad.fif'']. fails_to_load example_env f"
    by (simp add: bad_fails)
  from get_stats_all_fail [OF this] have "get_stats example_env [] [''bad.fif'', ''bad.fif''] = Inl ValueError" .
  moreover have "get_stats example_env [] [] = Inl ValueError"
    by (simp add: get_stats_def np_concatenate_def)
  ultimately show ?thesis by simp
qed

text \<open>
  C6, amended: if the list of files is empty, or interpolate fails on every file of
  it, get_stats returns no statistics: it fails with the ValueError raised by
  \<open>np.concatenate\<close>.
\<close>

theorem get_stats_no_data:
  assumes "list_all (fails_to_load E) file_list"
  shows "get_stats E lg file_list = Inl ValueError"
  using assms by (simp add: list_all_iff get_stats_all_fail)

theorem get_stats_no_data_witness:
  "list_all (fails_to_load example_env) [''bad.fif'', ''bad.fif''] \<and>
   get_stats example_env [] [''bad.fif'', ''bad.fif''] = Inl ValueError \<and>
   list_all (fails_to_load example_env) [] \<and>
   get_stats example_env [] [] = Inl ValueError"
proof -
  have a: "list_all (fails_to_load example_env) [''bad.fif'', ''bad.fif'']"
    by (simp add: bad_fails)
  have b: "list_all (fails_to_load example_env) []"
    by simp
  from a b get_stats_no_data [OF a, of "[]"] get_stats_no_data [OF b, of "[]"]
  show ?thesis by blast
qed

end
